theory Spec2Isabelle
  imports Complex_Main "HOL-Library.Word"
begin

section \<open>JavaScript values used by the main process\<close>

text \<open>
  The main process of the recorder (the Electron file with the \<open>save-file\<close> and
  \<open>GET_SCREEN_RESOLUTIONS\<close> handlers) works on JavaScript numbers and strings.
  Strings are lists of code units below 256. A number that \<open>parseInt\<close> produces is
  \<open>NaN\<close>, an infinity, or a double whose value is an integer: \<open>Num i\<close> stands for the
  double of value \<open>i\<close>. Integers up to \<open>2 ^ 53\<close> in absolute value are all doubles;
  beyond that \<open>parseInt\<close> rounds to the nearest double and the conversion to a string
  prints the shortest digits that identify the double.
\<close>

type_synonym byte = "8 word"
type_synonym bytes = "byte list"

datatype jsnum = NaN | Num int | PosInfinity | NegInfinity

subsection \<open>Decimal digits\<close>

text \<open>The ten decimal digits, in order.\<close>

definition decimal_digits :: string where
  "decimal_digits = ''0123456789''"

definition digit_char :: "nat \<Rightarrow> char" where
  "digit_char d = decimal_digits ! (d mod 10)"

function dec_nat :: "nat \<Rightarrow> string" where
  "dec_nat n = (if n < 10 then [digit_char n] else dec_nat (n div 10) @ [digit_char (n mod 10)])"
  by pat_completeness auto
termination
  by (relation "measure (\<lambda>n. n)") auto

declare dec_nat.simps [simp del]

text \<open>
  All the digits of an integer. This is what a template literal prints for a number
  below \<open>2 ^ 53\<close> in absolute value; the labels of the display resolutions use it.
\<close>

definition dec_int :: "int \<Rightarrow> string" where
  "dec_int i = (if i < 0 then CHR ''-'' # dec_nat (nat (- i)) else dec_nat (nat i))"

subsection \<open>Doubles with integer values\<close>

text \<open>The number of binary digits of a natural number.\<close>

function bit_length :: "nat \<Rightarrow> nat" where
  "bit_length n = (if n = 0 then 0 else Suc (bit_length (n div 2)))"
  by pat_completeness auto
termination
  by (relation "measure (\<lambda>n. n)") auto

declare bit_length.simps [simp del]

text \<open>
  The double nearest to a natural number, ties going to the even significand of 53
  bits; \<open>None\<close> when the result is beyond the largest double, that is, infinite.
\<close>

definition round_double :: "nat \<Rightarrow> nat option" where
  "round_double n =
     (if n < 2 ^ 53 then Some n
      else
        (let e = bit_length n - 53; q = n div 2 ^ e; r = n mod 2 ^ e; half = 2 ^ (e - 1);
             q' = (if half < r \<or> (r = half \<and> odd q) then q + 1 else q)
         in if q' * 2 ^ e < 2 ^ 1024 then Some (q' * 2 ^ e) else None))"

subsection \<open>Template literals: numbers to strings\<close>

text \<open>
  For a double \<open>x\<close> of at least \<open>2 ^ 53\<close>: whether the natural number \<open>v\<close> rounds to
  \<open>x\<close>. The bounds are the midpoints to the two neighbouring doubles, taken twice to
  stay in the natural numbers; they belong to \<open>x\<close> when its significand is even.
\<close>

definition rounds_to :: "nat \<Rightarrow> nat \<Rightarrow> bool" where
  "rounds_to x v =
     (let e = bit_length x - 53; m = x div 2 ^ e; up = 2 ^ e;
          down = (if m = 2 ^ 52 then 2 ^ (e - 1) else 2 ^ e)
      in if even m then 2 * x - down \<le> 2 * v \<and> 2 * v \<le> 2 * x + up
         else 2 * x - down < 2 * v \<and> 2 * v < 2 * x + up)"

text \<open>
  The multiple of \<open>10 ^ p\<close> that rounds to \<open>x\<close>, if there is one: of the two around
  \<open>x\<close> the nearer, and of two equally near the one with the even last digit.
\<close>

definition candidate :: "nat \<Rightarrow> nat \<Rightarrow> nat option" where
  "candidate x p =
     (let lo = (x div 10 ^ p) * 10 ^ p; hi = lo + 10 ^ p
      in if rounds_to x lo \<and> rounds_to x hi
         then Some (if x - lo < hi - x then lo
                    else if hi - x < x - lo then hi
                    else if even (x div 10 ^ p) then lo else hi)
         else if rounds_to x lo then Some lo
         else if rounds_to x hi then Some hi
         else None)"

text \<open>The value with the fewest significant digits that rounds to \<open>x\<close>.\<close>

function shortest_at :: "nat \<Rightarrow> nat \<Rightarrow> nat" where
  "shortest_at x p =
     (if p = 0 then x
      else (case candidate x p of Some v \<Rightarrow> v | None \<Rightarrow> shortest_at x (p - 1)))"
  by pat_completeness auto
termination
  by (relation "measure (\<lambda>(x, p). p)") auto

declare shortest_at.simps [simp del]

definition shortest_value :: "nat \<Rightarrow> nat" where
  "shortest_value x = shortest_at x (length (dec_nat x) - 1)"

text \<open>
  The digits of such a value: all of them below \<open>10 ^ 21\<close>, otherwise the significant
  digits, a point after the first when there are several, and the exponent.
\<close>

definition render_number :: "nat \<Rightarrow> string" where
  "render_number v =
     (if v < 10 ^ 21 then dec_nat v
      else
        (let ds = dec_nat v;
             s = rev (dropWhile (\<lambda>c. c = CHR ''0'') (rev ds))
         in (if length s = 1 then s else hd s # CHR ''.'' # tl s)
            @ ''e+'' @ dec_nat (length ds - 1)))"

text \<open>
  \<open>`${x}`\<close> for a double \<open>x\<close> whose value is a natural number. Below \<open>2 ^ 53\<close> every
  integer is a double, so the shortest digits are the digits of \<open>x\<close>.
\<close>

definition number_string :: "nat \<Rightarrow> string" where
  "number_string x = (if x < 2 ^ 53 then dec_nat x else render_number (shortest_value x))"

definition int_string :: "int \<Rightarrow> string" where
  "int_string i =
     (if i < 0 then CHR ''-'' # number_string (nat (- i)) else number_string (nat i))"

text \<open>\<open>`${n}`\<close> for any number that \<open>parseInt\<close> produces.\<close>

definition num_str :: "jsnum \<Rightarrow> string" where
  "num_str v =
     (case v of
        NaN \<Rightarrow> ''NaN''
      | Num i \<Rightarrow> int_string i
      | PosInfinity \<Rightarrow> ''Infinity''
      | NegInfinity \<Rightarrow> ''-Infinity'')"

subsection \<open>\<open>parseInt(s, 10)\<close> and \<open>s.split(c)\<close>\<close>

definition digit_val :: "char \<Rightarrow> nat option" where
  "digit_val c = map_of (zip decimal_digits [0, 1, 2, 3, 4, 5, 6, 7, 8, 9]) c"

definition is_digit :: "char \<Rightarrow> bool" where
  "is_digit c = (digit_val c \<noteq> None)"

text \<open>The white space that \<open>parseInt\<close> skips: TAB, LF, VT, FF, CR, SP and NBSP.\<close>

definition is_space :: "char \<Rightarrow> bool" where
  "is_space c = (c = CHR 0x09 \<or> c = CHR 0x0A \<or> c = CHR 0x0B \<or> c = CHR 0x0C
                 \<or> c = CHR 0x0D \<or> c = CHR 0x20 \<or> c = CHR 0xA0)"

fun digits_value :: "nat \<Rightarrow> string \<Rightarrow> nat" where
  "digits_value acc [] = acc"
| "digits_value acc (c # cs) = digits_value (10 * acc + (case digit_val c of None \<Rightarrow> 0 | Some d \<Rightarrow> d)) cs"

text \<open>
  \<open>parseInt(s, 10)\<close>: skip leading white space, read an optional sign, take the longest
  run of decimal digits; no digit gives \<open>NaN\<close>, whatever follows the digits is ignored.
  The result is the double nearest to the value of the digits.
\<close>

definition parseInt :: "string \<Rightarrow> jsnum" where
  "parseInt s =
     (let t = dropWhile is_space s;
          neg = (t \<noteq> [] \<and> hd t = CHR ''-'');
          u = (if t \<noteq> [] \<and> (hd t = CHR ''-'' \<or> hd t = CHR ''+'') then tl t else t);
          z = takeWhile is_digit u
      in if z = [] then NaN
         else (case round_double (digits_value 0 z) of
                 None \<Rightarrow> (if neg then NegInfinity else PosInfinity)
               | Some v \<Rightarrow> Num ((if neg then - 1 else 1) * int v)))"

text \<open>\<open>s.split(c)\<close> for a one-character separator: always at least one part.\<close>

fun split_on :: "char \<Rightarrow> string \<Rightarrow> string list" where
  "split_on c [] = [[]]"
| "split_on c (d # s) =
     (if d = c then [] # split_on c s
      else (case split_on c s of [] \<Rightarrow> [[d]] | p # ps \<Rightarrow> (d # p) # ps))"

section \<open>Resolution arithmetic\<close>

text \<open>
  \<open>height % 2 === 0 ? height : height - 1\<close>, as written in both handlers. The parity
  test agrees with JavaScript's \<open>%\<close> on negative numbers too (\<open>-3 % 2\<close> is \<open>-1\<close>).
\<close>

definition evenHeight :: "int \<Rightarrow> int" where
  "evenHeight height = (if height mod 2 = 0 then height else height - 1)"

text \<open>
  The same line on a number that \<open>parseInt\<close> produced. On \<open>NaN\<close> the parity test is
  false and \<open>NaN - 1\<close> is \<open>NaN\<close>; on an infinity the remainder is \<open>NaN\<close>, the test is
  false and subtracting one changes nothing. An odd double is below \<open>2 ^ 53\<close> in
  absolute value, so the subtraction is exact.
\<close>

definition even_height :: "jsnum \<Rightarrow> jsnum" where
  "even_height height = (case height of Num h \<Rightarrow> Num (evenHeight h) | other \<Rightarrow> other)"

text \<open>
  The resolution block of the \<open>save-file\<close> handler. The argument is \<open>None\<close> when the
  caller passed no \<open>resolution\<close>; the empty string is falsy as well.
\<close>

definition parse_resolution :: "string option \<Rightarrow> jsnum \<times> jsnum" where
  "parse_resolution resolution =
     (case resolution of
        None \<Rightarrow> (Num 1920, Num 1080)
      | Some r \<Rightarrow>
          if r = [] then (Num 1920, Num 1080)
          else
            (let dims = split_on (CHR ''x'') r
             in if length dims = 2
                then (parseInt (dims ! 0), even_height (parseInt (dims ! 1)))
                else (Num 1920, Num 1080)))"

subsection \<open>Aspect-ratio labels\<close>

text \<open>
  The inner \<open>gcd\<close> of \<open>calculateAspectRatio\<close>: both arguments are made non-negative by
  \<open>Math.abs\<close>, so they are natural numbers here and \<open>%\<close> is \<open>mod\<close>.
\<close>

function gcd_loop :: "nat \<Rightarrow> nat \<Rightarrow> nat" where
  "gcd_loop a b = (if b \<noteq> 0 then gcd_loop b (a mod b) else a)"
  by pat_completeness auto
termination
  by (relation "measure (\<lambda>(a, b). b)") auto

declare gcd_loop.simps [simp del]

definition gcd_js :: "int \<Rightarrow> int \<Rightarrow> nat" where
  "gcd_js a0 b0 =
     (let a = nat \<bar>a0\<bar>; b = nat \<bar>b0\<bar>
      in if a = 0 then b else if b = 0 then a else gcd_loop a b)"

text \<open>
  \<open>calculateAspectRatio(width, height)\<close>. The divisor divides both numbers, so the
  two quotients are integers and \<open>Math.round\<close> leaves them as they are.
\<close>

definition calculateAspectRatio :: "int \<Rightarrow> int \<Rightarrow> string" where
  "calculateAspectRatio width height =
     (let divisor = int (gcd_js width height)
      in if divisor = 0 then ''16:9''
         else
           (let ratioWidth = width div divisor; ratioHeight = height div divisor
            in if ratioWidth > 100 \<or> ratioHeight > 100 then ''16:9''
               else dec_int ratioWidth @ '':'' @ dec_int ratioHeight))"

text \<open>
  The label chosen by the \<open>GET_SCREEN_RESOLUTIONS\<close> handler. \<open>ratio\<close> is the quotient
  of two integers, taken here as a rational number; the comparisons with the decimal
  bounds agree with the floating-point ones for every height below \<open>10 ^ 14\<close>. With
  height zero the quotient is infinite or \<open>NaN\<close> and no band matches.
\<close>

definition aspect_label :: "int \<Rightarrow> int \<Rightarrow> string" where
  "aspect_label width height =
     (if height = 0 then calculateAspectRatio width height
      else
        (let ratio = (of_int width / of_int height :: rat)
         in if ratio > 1.7 \<and> ratio < 1.8 then ''16:9''
            else if ratio > 1.3 \<and> ratio < 1.4 then ''4:3''
            else if ratio > 1.5 \<and> ratio < 1.6 then ''3:2''
            else if ratio > 2.3 \<and> ratio < 2.4 then ''21:9''
            else calculateAspectRatio width height))"

subsection \<open>The \<open>GET_SCREEN_RESOLUTIONS\<close> handler\<close>

text \<open>
  A display as Electron reports it: \<open>bounds\<close> is always present, so the handler's
  alternatives \<open>display.size\<close> and \<open>display\<close> are never taken. The scale factor is a
  rational number; \<open>display.scaleFactor || 1\<close> replaces zero by one.
\<close>

record display =
  bounds_width :: int
  bounds_height :: int
  scaleFactor :: rat

record native_resolution =
  res_width :: int
  res_height :: int
  res_scaleFactor :: rat
  res_aspectRatio :: string
  res_label :: string

text \<open>\<open>Math.round\<close> rounds halves upwards.\<close>

definition math_round :: "rat \<Rightarrow> int" where
  "math_round x = \<lfloor>x + 1 / 2\<rfloor>"

definition effective_scale :: "display \<Rightarrow> rat" where
  "effective_scale d = (if scaleFactor d = 0 then 1 else scaleFactor d)"

definition scaledWidth :: "display \<Rightarrow> int" where
  "scaledWidth d = math_round (of_int (bounds_width d) * effective_scale d)"

definition scaledHeight :: "display \<Rightarrow> int" where
  "scaledHeight d = math_round (of_int (bounds_height d) * effective_scale d)"

text \<open>What the handler prints for one display: the bounds, the factor, the scaled size.\<close>

datatype display_log = DisplayLine int int rat int int

definition display_line :: "display \<Rightarrow> display_log" where
  "display_line d =
     DisplayLine (bounds_width d) (bounds_height d) (effective_scale d)
       (scaledWidth d) (scaledHeight d)"

text \<open>The object returned for one display; the multiplication sign is code unit 0xD7.\<close>

definition resolution_of_display :: "display \<Rightarrow> native_resolution" where
  "resolution_of_display d =
     (let width = bounds_width d; height = bounds_height d;
          aspectRatio = aspect_label width height;
          eh = evenHeight height
      in \<lparr> res_width = width, res_height = eh, res_scaleFactor = effective_scale d,
           res_aspectRatio = aspectRatio,
           res_label = dec_int width @ [CHR 0xD7] @ dec_int eh @ '' ('' @ aspectRatio
                       @ '') - Native'' \<rparr>)"

text \<open>
  The handler: \<open>Inl\<close> stands for \<open>screen.getAllDisplays()\<close> throwing, which the
  \<open>catch\<close> turns into the empty list.
\<close>

definition get_screen_resolutions ::
  "string + display list \<Rightarrow> native_resolution list \<times> display_log list" where
  "get_screen_resolutions displays =
     (case displays of
        Inl err \<Rightarrow> ([], [])
      | Inr ds \<Rightarrow> (map resolution_of_display ds, map display_line ds))"


section \<open>The \<open>save-file\<close> handler\<close>

subsection \<open>Files and the outside world\<close>

text \<open>
  A path is a string; which file it names is decided by the platform (the working
  directory, dots, links, the case of letters). The file system is therefore a map from
  locations to contents, and the platform of a request says which location a path names.
  Each of the four \<open>fs\<close> calls of the handler is made at most once per request, so one
  fault per kind of call describes every way in which the platform can refuse:
  \<open>fs_fault env op = Some msg\<close> makes the call reject with an error whose \<open>message\<close>
  is \<open>msg\<close> and leaves the files alone.
\<close>

type_synonym path = string
type_synonym location = string
type_synonym filesystem = "location \<Rightarrow> bytes option"

datatype fs_op = WriteFile | Stat | CopyFile | Unlink

text \<open>One stream of the metadata that \<open>ffprobe\<close> hands to its callback.\<close>

record stream =
  codec_type :: "string option"
  stream_width :: "int option"
  stream_height :: "int option"
  stream_duration :: "string option"
  display_aspect_ratio :: "string option"
  pix_fmt :: "string option"

text \<open>
  The callback of \<open>ffprobe\<close> receives an error or the metadata; \<open>ProbeData None\<close> is
  metadata without a usable \<open>streams\<close> array, on which \<open>.find\<close> throws.
\<close>

datatype probe_outcome = ProbeError string | ProbeData "stream list option"

record ffmpeg_command =
  cmd_input :: path
  cmd_inputOptions :: "string list"
  cmd_videoBitrate :: int
  cmd_videoFilters :: string
  cmd_output :: path
  cmd_outputOptions :: "string list"

text \<open>
  The transcoder ends (\<open>end\<close> event, the output file written) or fails (\<open>error\<close>
  event with a message, possibly leaving a partial output file).
\<close>

datatype ffmpeg_outcome = FfmpegEnd bytes | FfmpegError string "bytes option"

record environment =
  temp_dir :: path
  now :: nat
  locate :: "path \<Rightarrow> location"
  fs_fault :: "fs_op \<Rightarrow> string option"
  ffprobe :: "path \<Rightarrow> bytes option \<Rightarrow> probe_outcome"
  toNumber :: "string \<Rightarrow> rat option"
  ffmpeg_run :: "ffmpeg_command \<Rightarrow> bytes option \<Rightarrow> ffmpeg_outcome"

text \<open>
  \<open>temp_dir\<close> is \<open>app.getPath('temp')\<close>; \<open>now\<close> is \<open>Date.now()\<close>, a number of
  milliseconds, which is an integer of at most \<open>8.64 * 10 ^ 15\<close>; \<open>locate\<close> gives the
  location that a path names; \<open>toNumber\<close> is the built-in \<open>Number\<close> on strings (\<open>None\<close>
  for \<open>NaN\<close>). \<open>ffprobe\<close> and \<open>ffmpeg_run\<close> are the external tools, as functions of
  what they are given and of the content of the file they read.
\<close>

text \<open>
  Everything the handler does that can be observed from outside, in order: its own
  console lines and its calls to the platform. The console lines that merely echo the
  transcoder's command line, progress and diagnostic output are left out.
\<close>

datatype event =
    Log string
  | LogError string "string option"
  | LogWarn string
  | LogVideoStream stream
  | LogInputDimensions int int rat
  | FsWriteFile path bytes
  | FsStat path
  | FsCopyFile path path
  | FsUnlink path
  | Ffprobe path
  | FfmpegRun ffmpeg_command

record save_request =
  filePath :: path
  buffer :: "bytes option"
  format :: string
  resolution :: "string option"
  bitrate :: "int option"
  preserveAspectRatio :: bool

record save_result =
  success :: bool
  error :: "string option"

subsection \<open>\<open>path.join\<close>\<close>

text \<open>
  The POSIX flavour of \<open>path.normalize\<close>: empty segments and single dots are dropped,
  a double dot removes the segment before it; above the start of a relative path a
  double dot is kept, above the root it is dropped. \<open>res\<close> holds the segments kept so
  far, the last one first.
\<close>

fun normalize_segments :: "bool \<Rightarrow> string list \<Rightarrow> string list \<Rightarrow> string list" where
  "normalize_segments allowAboveRoot res [] = rev res"
| "normalize_segments allowAboveRoot res (seg # segs) =
     (if seg = [] \<or> seg = ''.'' then normalize_segments allowAboveRoot res segs
      else if seg = ''..''
      then (if res \<noteq> [] \<and> hd res \<noteq> ''..''
            then normalize_segments allowAboveRoot (tl res) segs
            else if allowAboveRoot
            then normalize_segments allowAboveRoot (''..'' # res) segs
            else normalize_segments allowAboveRoot res segs)
      else normalize_segments allowAboveRoot (seg # res) segs)"

fun join_segments :: "string list \<Rightarrow> string" where
  "join_segments [] = []"
| "join_segments [seg] = seg"
| "join_segments (seg # next # segs) = seg @ ''/'' @ join_segments (next # segs)"

definition normalize :: "path \<Rightarrow> path" where
  "normalize p =
     (if p = [] then ''.''
      else
        (let isAbsolute = (hd p = CHR ''/'');
             trailingSeparator = (last p = CHR ''/'');
             body = join_segments
                      (normalize_segments (\<not> isAbsolute) [] (split_on (CHR ''/'') p))
         in if body = []
            then (if isAbsolute then ''/'' else if trailingSeparator then ''./'' else ''.'')
            else (if isAbsolute then ''/'' else []) @ body
                 @ (if trailingSeparator then ''/'' else [])))"

text \<open>\<open>path.join(dir, name)\<close>: the non-empty arguments joined by a slash, normalised.\<close>

definition path_join :: "path \<Rightarrow> string \<Rightarrow> path" where
  "path_join dir name =
     (if dir = [] \<and> name = [] then ''.''
      else normalize (if dir = [] then name
                      else if name = [] then dir
                      else dir @ ''/'' @ name))"

subsection \<open>The \<open>fs\<close> calls\<close>

definition fs_writeFile ::
  "environment \<Rightarrow> path \<Rightarrow> bytes \<Rightarrow> filesystem \<Rightarrow> (string + unit) \<times> filesystem" where
  "fs_writeFile env p content files =
     (case fs_fault env WriteFile of
        Some msg \<Rightarrow> (Inl msg, files)
      | None \<Rightarrow> (Inr (), files(locate env p \<mapsto> content)))"

definition fs_stat :: "environment \<Rightarrow> path \<Rightarrow> filesystem \<Rightarrow> string + nat" where
  "fs_stat env p files =
     (case fs_fault env Stat of
        Some msg \<Rightarrow> Inl msg
      | None \<Rightarrow> (case files (locate env p) of
                   None \<Rightarrow> Inl ''ENOENT: no such file or directory''
                 | Some content \<Rightarrow> Inr (length content)))"

definition fs_copyFile ::
  "environment \<Rightarrow> path \<Rightarrow> path \<Rightarrow> filesystem \<Rightarrow> (string + unit) \<times> filesystem" where
  "fs_copyFile env src dst files =
     (case fs_fault env CopyFile of
        Some msg \<Rightarrow> (Inl msg, files)
      | None \<Rightarrow> (case files (locate env src) of
                   None \<Rightarrow> (Inl ''ENOENT: no such file or directory'', files)
                 | Some content \<Rightarrow> (Inr (), files(locate env dst \<mapsto> content))))"

definition fs_unlink ::
  "environment \<Rightarrow> path \<Rightarrow> filesystem \<Rightarrow> (string + unit) \<times> filesystem" where
  "fs_unlink env p files =
     (case fs_fault env Unlink of
        Some msg \<Rightarrow> (Inl msg, files)
      | None \<Rightarrow> (case files (locate env p) of
                   None \<Rightarrow> (Inl ''ENOENT: no such file or directory'', files)
                 | Some content \<Rightarrow> (Inr (), files(locate env p := None))))"

subsection \<open>\<open>getVideoInfo\<close>\<close>

record video_info =
  info_width :: int
  info_height :: int
  info_duration :: "string option"
  info_displayAspectRatio :: "rat option"
  info_pixelFormat :: "string option"

text \<open>The object \<open>{ width: 1920, height: 1080 }\<close> of the three fallback branches.\<close>

definition fallback_info :: video_info where
  "fallback_info =
     \<lparr> info_width = 1920, info_height = 1080, info_duration = None,
       info_displayAspectRatio = None, info_pixelFormat = None \<rparr>"

text \<open>\<open>x || d\<close> on a number that may be missing: zero is falsy too.\<close>

definition num_or :: "int option \<Rightarrow> int \<Rightarrow> int" where
  "num_or x d = (case x of None \<Rightarrow> d | Some v \<Rightarrow> if v = 0 then d else v)"

text \<open>
  \<open>const [w, h] = s.split(':').map(Number); if (w && h) displayAspectRatio = w / h\<close>.
\<close>

definition parse_dar :: "(string \<Rightarrow> rat option) \<Rightarrow> string \<Rightarrow> rat option" where
  "parse_dar num s =
     (case map num (split_on (CHR '':'') s) of
        Some w # Some h # rest \<Rightarrow> if w \<noteq> 0 \<and> h \<noteq> 0 then Some (w / h) else None
      | _ \<Rightarrow> None)"

definition is_video :: "stream \<Rightarrow> bool" where
  "is_video st = (codec_type st = Some ''video'')"

definition info_of_stream :: "(string \<Rightarrow> rat option) \<Rightarrow> stream \<Rightarrow> video_info" where
  "info_of_stream num videoStream =
     (let width = num_or (stream_width videoStream) 1920;
          height = num_or (stream_height videoStream) 1080;
          dar = (case display_aspect_ratio videoStream of
                   None \<Rightarrow> None
                 | Some s \<Rightarrow> if s = [] then None else parse_dar num s);
          displayAspectRatio = (case dar of
                                  None \<Rightarrow> of_int width / of_int height
                                | Some r \<Rightarrow> r)
      in \<lparr> info_width = width, info_height = height,
           info_duration = stream_duration videoStream,
           info_displayAspectRatio = Some displayAspectRatio,
           info_pixelFormat = pix_fmt videoStream \<rparr>)"

text \<open>
  The promise of \<open>getVideoInfo\<close> is resolved on every branch and never rejected: the
  function returns the value it resolves with, and what it prints.
\<close>

definition getVideoInfo ::
  "(string \<Rightarrow> rat option) \<Rightarrow> probe_outcome \<Rightarrow> video_info \<times> event list" where
  "getVideoInfo num outcome =
     (case outcome of
        ProbeError err \<Rightarrow> (fallback_info, [LogError ''Error probing video:'' (Some err)])
      | ProbeData None \<Rightarrow>
          (fallback_info, [LogError ''Error parsing video metadata:'' None])
      | ProbeData (Some streams) \<Rightarrow>
          (case find is_video streams of
             Some videoStream \<Rightarrow>
               (info_of_stream num videoStream, [LogVideoStream videoStream])
           | None \<Rightarrow> (fallback_info, [LogWarn ''No video stream found in file''])))"


subsection \<open>The transcoding branch\<close>

text \<open>\<open>bitrate ? Math.floor(bitrate / 1000) : 5000\<close>.\<close>

definition videoBitrate :: "int option \<Rightarrow> int" where
  "videoBitrate b = (case b of None \<Rightarrow> 5000 | Some v \<Rightarrow> if v = 0 then 5000 else v div 1000)"

definition scaleFilter :: "bool \<Rightarrow> jsnum \<Rightarrow> jsnum \<Rightarrow> string" where
  "scaleFilter preserve width height =
     (if preserve
      then ''scale='' @ num_str width @ '':'' @ num_str height
           @ '':force_original_aspect_ratio=decrease,pad='' @ num_str width @ '':''
           @ num_str height @ '':(ow-iw)/2:(oh-ih)/2''
      else ''scale='' @ num_str width @ '':'' @ num_str height)"

definition bool_str :: "bool \<Rightarrow> string" where
  "bool_str b = (if b then ''true'' else ''false'')"

definition make_command :: "path \<Rightarrow> path \<Rightarrow> int \<Rightarrow> string \<Rightarrow> ffmpeg_command" where
  "make_command tempPath dst vb sf =
     \<lparr> cmd_input = tempPath,
       cmd_inputOptions = [''-fflags'', ''+genpts''],
       cmd_videoBitrate = vb,
       cmd_videoFilters = sf,
       cmd_output = dst,
       cmd_outputOptions = [''-c:v'', ''libx264'', ''-preset'', ''fast'', ''-crf'', ''22'',
                            ''-pix_fmt'', ''yuv420p'', ''-movflags'', ''+faststart''] \<rparr>"

text \<open>
  From \<open>// Parse resolution\<close> to the end of the \<open>try\<close> block. \<open>Inl msg\<close> is an
  exception with that message, on its way to the \<open>catch\<close>.
\<close>

definition transcode ::
  "environment \<Rightarrow> save_request \<Rightarrow> path \<Rightarrow> filesystem
     \<Rightarrow> (string + save_result) \<times> filesystem \<times> event list" where
  "transcode env req tempPath files =
     (let (width, height) = parse_resolution (resolution req);
          vb = videoBitrate (bitrate req);
          (inputInfo, probeLog) =
             getVideoInfo (toNumber env)
               (ffprobe env tempPath (files (locate env tempPath)));
          inputWidth = (if info_width inputInfo = 0 then 1920 else info_width inputInfo);
          inputHeight = (if info_height inputInfo = 0 then 1080 else info_height inputInfo);
          inputAspectRatio =
            (case info_displayAspectRatio inputInfo of
               None \<Rightarrow> of_int inputWidth / of_int inputHeight
             | Some r \<Rightarrow> if r = 0 then of_int inputWidth / of_int inputHeight else r);
          sf = scaleFilter (preserveAspectRatio req) width height;
          command = make_command tempPath (filePath req) vb sf;
          before =
            [Ffprobe tempPath] @ probeLog @
            [LogInputDimensions inputWidth inputHeight inputAspectRatio,
             Log (''Target dimensions: '' @ num_str width @ ''x'' @ num_str height
                  @ '' with preserve ratio: '' @ bool_str (preserveAspectRatio req)),
             Log ((if preserveAspectRatio req
                   then ''Scaling with preserved aspect ratio: ''
                   else ''Scaling to exact dimensions (may stretch): '') @ sf),
             Log (''Converting to '' @ format req @ '' with resolution '' @ num_str width
                  @ ''x'' @ num_str height @ '' at '' @ int_string vb @ ''kbps...''),
             FfmpegRun command]
      in case ffmpeg_run env command (files (locate env tempPath)) of
           FfmpegEnd out \<Rightarrow>
             (Inr \<lparr> success = True, error = None \<rparr>,
              files(locate env (filePath req) \<mapsto> out),
              before @ [Log ''FFmpeg conversion complete'',
                        Log (''File saved to: '' @ filePath req)])
         | FfmpegError msg partial \<Rightarrow>
             (Inl msg,
              (case partial of
                 None \<Rightarrow> files
               | Some part \<Rightarrow> files(locate env (filePath req) \<mapsto> part)),
              before @ [LogError ''FFmpeg error:'' (Some msg)]))"

subsection \<open>The handler\<close>

text \<open>
  The \<open>try\<close> block from the assignment of \<open>tempPath\<close> on; \<open>content\<close> is the non-empty
  buffer.
\<close>

definition save_try ::
  "environment \<Rightarrow> save_request \<Rightarrow> bytes \<Rightarrow> path \<Rightarrow> filesystem
     \<Rightarrow> (string + save_result) \<times> filesystem \<times> event list" where
  "save_try env req content tempPath files =
     (let started = [Log (''Saving temp file to: '' @ tempPath), FsWriteFile tempPath content]
      in case fs_writeFile env tempPath content files of
           (Inl msg, files1) \<Rightarrow> (Inl msg, files1, started)
         | (Inr u, files1) \<Rightarrow>
             (case fs_stat env tempPath files1 of
                Inl msg \<Rightarrow> (Inl msg, files1, started @ [FsStat tempPath])
              | Inr sz \<Rightarrow>
                  (let sized = started @ [FsStat tempPath,
                         Log (''Temp file size: '' @ number_string sz @ '' bytes'')]
                   in if sz = 0
                      then (Inr \<lparr> success = False, error = Some ''Recording file is empty.'' \<rparr>,
                            files1, sized)
                      else if format req = ''webm''
                      then (case fs_copyFile env tempPath (filePath req) files1 of
                              (Inl msg, files2) \<Rightarrow>
                                (Inl msg, files2, sized @ [FsCopyFile tempPath (filePath req)])
                            | (Inr u2, files2) \<Rightarrow>
                                (Inr \<lparr> success = True, error = None \<rparr>, files2,
                                 sized @ [FsCopyFile tempPath (filePath req),
                                          Log (''WebM file saved to: '' @ filePath req)]))
                      else (case transcode env req tempPath files1 of
                              (r, files2, evs) \<Rightarrow> (r, files2, sized @ evs)))))"

definition tempPath_of :: "environment \<Rightarrow> path" where
  "tempPath_of env =
     path_join (temp_dir env) (''temp-'' @ number_string (now env) @ ''.webm'')"

definition empty_buffer_result :: save_result where
  "empty_buffer_result =
     \<lparr> success = False,
       error = Some ''No recording data received. The recording may be empty.'' \<rparr>"

text \<open>
  The whole handler: the early return while \<open>tempPath\<close> is still \<open>null\<close>, then
  \<open>try\<close>, \<open>catch\<close> and \<open>finally\<close>. The result is the answer sent to the renderer, the
  files afterwards, and the events in order.
\<close>

definition save_file ::
  "environment \<Rightarrow> save_request \<Rightarrow> filesystem \<Rightarrow> save_result \<times> filesystem \<times> event list" where
  "save_file env req files =
     (if buffer req = None \<or> buffer req = Some []
      then (empty_buffer_result, files, [LogError ''Error: Empty buffer received'' None])
      else
        (let tempPath = tempPath_of env
         in case save_try env req (the (buffer req)) tempPath files of
              (r, files1, evs) \<Rightarrow>
                (let (res, caught) =
                       (case r of
                          Inr answer \<Rightarrow> (answer, [])
                        | Inl msg \<Rightarrow> (\<lparr> success = False, error = Some msg \<rparr>,
                                      [LogError ''Error in save-file:'' (Some msg)]))
                 in case fs_unlink env tempPath files1 of
                      (Inr u, files2) \<Rightarrow>
                        (res, files2,
                         evs @ caught @ [FsUnlink tempPath, Log ''Temp file deleted''])
                    | (Inl msg, files2) \<Rightarrow>
                        (res, files2,
                         evs @ caught @ [FsUnlink tempPath,
                                         LogError ''Error deleting temp file:'' (Some msg)]))))"

text \<open>The transcoder invocations among the events.\<close>

fun ffmpeg_calls :: "event list \<Rightarrow> ffmpeg_command list" where
  "ffmpeg_calls [] = []"
| "ffmpeg_calls (FfmpegRun c # evs) = c # ffmpeg_calls evs"
| "ffmpeg_calls (e # evs) = ffmpeg_calls evs"

text \<open>
  The command that the transcoding branch builds for a request, as a function of the
  request and of the temporary path alone.
\<close>

definition command_of :: "save_request \<Rightarrow> path \<Rightarrow> ffmpeg_command" where
  "command_of req tempPath =
     make_command tempPath (filePath req) (videoBitrate (bitrate req))
       (scaleFilter (preserveAspectRatio req) (fst (parse_resolution (resolution req)))
          (snd (parse_resolution (resolution req))))"

text \<open>
  The probe fails when \<open>ffprobe\<close> reports an error, when the metadata cannot be read,
  or when no stream is a video stream.
\<close>

definition probe_failure :: "probe_outcome \<Rightarrow> bool" where
  "probe_failure outcome =
     (case outcome of
        ProbeError err \<Rightarrow> True
      | ProbeData None \<Rightarrow> True
      | ProbeData (Some streams) \<Rightarrow> find is_video streams = None)"

subsection \<open>Sample inputs\<close>

text \<open>
  A platform on which a path names the location of its normal form, every file operation
  works, the probe fails and the transcoder ends; a request for an MP4 file of 1920 by
  1081 without letterboxing.
\<close>

definition sample_env :: environment where
  "sample_env =
     \<lparr> temp_dir = ''/tmp'', now = 1700000000000, locate = normalize,
       fs_fault = (\<lambda>op. None),
       ffprobe = (\<lambda>p content. ProbeError ''ffprobe exited with code 1''),
       toNumber = (\<lambda>s. None),
       ffmpeg_run = (\<lambda>command content. FfmpegEnd [0, 0, 0, 24]) \<rparr>"

definition sample_request :: save_request where
  "sample_request =
     \<lparr> filePath = ''/home/user/out.mp4'', buffer = Some [26, 69, 223, 163],
       format = ''mp4'', resolution = Some ''1920x1081'', bitrate = Some 5000000,
       preserveAspectRatio = False \<rparr>"

definition webm_request :: save_request where
  "webm_request = sample_request \<lparr> filePath := ''/home/user/out.webm'', format := ''webm'' \<rparr>"

text \<open>The same platform, except that copying is refused.\<close>

definition copy_refused_env :: environment where
  "copy_refused_env =
     sample_env \<lparr> fs_fault := (\<lambda>op. if op = CopyFile then Some ''EACCES: permission denied''
                                    else None) \<rparr>"

text \<open>A request whose destination is another spelling of the temporary path.\<close>

definition aliased_request :: save_request where
  "aliased_request = webm_request \<lparr> filePath := ''/tmp/./temp-1700000000000.webm'' \<rparr>"

text \<open>The same platform, except that the transcoder fails and leaves a partial file.\<close>

definition ffmpeg_failing_env :: environment where
  "ffmpeg_failing_env =
     sample_env \<lparr> ffmpeg_run := (\<lambda>command content.
                     FfmpegError ''ffmpeg exited with code 1'' (Some [0, 0])) \<rparr>"

section \<open>The label as the specification words it\<close>


text \<open>A display of 1440 by 900 points with two pixels per point.\<close>

definition retina_display :: display where
  "retina_display = \<lparr> bounds_width = 1440, bounds_height = 900, scaleFactor = 2 \<rparr>"

section \<open>Recording sessions\<close>

subsection \<open>The \<open>start-recording\<close> handler of the main process\<close>

text \<open>
  The module variables of the main process that records with a child \<open>ffmpeg\<close>
  process, together with the children that are alive. \<open>at_dirs\<close> and \<open>at_write\<close>
  count the invocations of the handler that are suspended at its first and at its
  second \<open>await\<close>.
\<close>

record main_state =
  isRecording :: bool
  ffmpegProcess :: "nat option"
  recordingPath :: path
  encryptionKey :: "bytes option"
  children :: "nat list"
  at_dirs :: nat
  at_write :: nat

record start_result =
  start_success :: bool
  start_message :: string

text \<open>
  What the platform does for one invocation: \<open>ensureDirectories\<close> throws or gives the
  directory, the clock gives the time stamp, \<open>randomBytes\<close> the key, \<open>writeFile\<close> may
  reject, \<open>spawn\<close> throws or gives the new child.
\<close>

record start_env =
  dirs_outcome :: "string + path"
  timestamp :: string
  new_key :: bytes
  write_outcome :: "string option"
  spawn_outcome :: "string + nat"

definition initial_main :: main_state where
  "initial_main =
     \<lparr> isRecording = False, ffmpegProcess = None, recordingPath = [], encryptionKey = None,
       children = [], at_dirs = 0, at_write = 0 \<rparr>"

definition already_recording :: start_result where
  "already_recording = \<lparr> start_success = False, start_message = ''Already recording'' \<rparr>"

definition start_failed :: "string \<Rightarrow> start_result" where
  "start_failed err =
     \<lparr> start_success = False, start_message = ''Failed to start recording: '' @ err \<rparr>"

text \<open>The first line of the handler, up to \<open>await ensureDirectories()\<close>.\<close>

definition start_check :: "main_state \<Rightarrow> start_result option" where
  "start_check s = (if isRecording s then Some already_recording else None)"

text \<open>From there to \<open>await writeFile(...)\<close>: the path and the key are assigned.\<close>

definition start_after_dirs ::
  "start_env \<Rightarrow> main_state \<Rightarrow> main_state \<times> start_result option" where
  "start_after_dirs env s =
     (case dirs_outcome env of
        Inl err \<Rightarrow> (s, Some (start_failed err))
      | Inr recordingsPath \<Rightarrow>
          (s \<lparr> recordingPath := path_join recordingsPath (''recording-'' @ timestamp env),
               encryptionKey := Some (new_key env) \<rparr>, None))"

text \<open>From there to the end: the child is spawned, then the flag is set.\<close>

definition start_after_write :: "start_env \<Rightarrow> main_state \<Rightarrow> main_state \<times> start_result" where
  "start_after_write env s =
     (case write_outcome env of
        Some err \<Rightarrow> (s, start_failed err)
      | None \<Rightarrow>
          (case spawn_outcome env of
             Inl err \<Rightarrow> (s, start_failed err)
           | Inr child \<Rightarrow>
               (s \<lparr> ffmpegProcess := Some child, children := child # children s,
                    isRecording := True \<rparr>,
                \<lparr> start_success = True, start_message = ''Recording started'' \<rparr>)))"

text \<open>One invocation of the handler that runs from start to end with nothing in between.\<close>

definition start_recording :: "start_env \<Rightarrow> main_state \<Rightarrow> main_state \<times> start_result" where
  "start_recording env s =
     (case start_check s of
        Some rejected \<Rightarrow> (s, rejected)
      | None \<Rightarrow>
          (case start_after_dirs env s of
             (s1, Some failed) \<Rightarrow> (s1, failed)
           | (s1, None) \<Rightarrow> start_after_write env s1))"

text \<open>The \<open>close\<close> listener of a child: the flag is cleared.\<close>

definition child_closed :: "nat \<Rightarrow> main_state \<Rightarrow> main_state" where
  "child_closed child s = s \<lparr> isRecording := False, children := remove1 child (children s) \<rparr>"

text \<open>
  Executions in which every invocation finishes before anything else happens. The
  \<open>stop-recording\<close> handler only signals the child and assigns none of the variables;
  the exit of the child is the event \<open>SerialClosed\<close>.
\<close>

datatype serial_event = SerialStart start_env | SerialClosed nat

fun serial_step :: "serial_event \<Rightarrow> main_state \<Rightarrow> main_state" where
  "serial_step (SerialStart env) s = fst (start_recording env s)"
| "serial_step (SerialClosed child) s =
     (if child \<in> set (children s) then child_closed child s else s)"

fun run_serial :: "main_state \<Rightarrow> serial_event list \<Rightarrow> main_state" where
  "run_serial s [] = s"
| "run_serial s (e # es) = run_serial (serial_step e s) es"

text \<open>
  Executions of the event loop, where an invocation gives way at each \<open>await\<close> and
  other invocations may run before it resumes.
\<close>

datatype main_event = StartCall | DirsSettled start_env | WriteSettled start_env
  | ChildClosed nat

fun main_step :: "main_event \<Rightarrow> main_state \<Rightarrow> main_state" where
  "main_step StartCall s =
     (case start_check s of
        Some rejected \<Rightarrow> s
      | None \<Rightarrow> s \<lparr> at_dirs := at_dirs s + 1 \<rparr>)"
| "main_step (DirsSettled env) s =
     (if at_dirs s = 0 then s
      else (case start_after_dirs env (s \<lparr> at_dirs := at_dirs s - 1 \<rparr>) of
              (s1, Some failed) \<Rightarrow> s1
            | (s1, None) \<Rightarrow> s1 \<lparr> at_write := at_write s1 + 1 \<rparr>))"
| "main_step (WriteSettled env) s =
     (if at_write s = 0 then s
      else fst (start_after_write env (s \<lparr> at_write := at_write s - 1 \<rparr>)))"
| "main_step (ChildClosed child) s =
     (if child \<in> set (children s) then child_closed child s else s)"

fun run_main :: "main_state \<Rightarrow> main_event list \<Rightarrow> main_state" where
  "run_main s [] = s"
| "run_main s (e # es) = run_main (main_step e s) es"

text \<open>At most one child is alive, and none while the flag is clear.\<close>

definition single_session :: "main_state \<Rightarrow> bool" where
  "single_session s = (length (children s) \<le> 1 \<and> (\<not> isRecording s \<longrightarrow> children s = []))"

text \<open>Two platforms for two invocations, and the schedule in which they overlap.\<close>

definition first_start :: start_env where
  "first_start =
     \<lparr> dirs_outcome = Inr ''/data/recordings'', timestamp = ''2024-01-01T10-00-00-000Z'',
       new_key = [1, 2, 3], write_outcome = None, spawn_outcome = Inr 101 \<rparr>"

definition second_start :: start_env where
  "second_start =
     \<lparr> dirs_outcome = Inr ''/data/recordings'', timestamp = ''2024-01-01T10-00-00-004Z'',
       new_key = [4, 5, 6], write_outcome = None, spawn_outcome = Inr 102 \<rparr>"

definition overlapping_starts :: "main_event list" where
  "overlapping_starts =
     [StartCall, StartCall, DirsSettled first_start, WriteSettled first_start,
      DirsSettled second_start, WriteSettled second_start]"

text \<open>A main process in the middle of a recording.\<close>

definition busy_main :: main_state where
  "busy_main =
     \<lparr> isRecording = True, ffmpegProcess = Some 101,
       recordingPath = ''/data/recordings/recording-2024-01-01T10-00-00-000Z'',
       encryptionKey = Some [1, 2, 3], children = [101], at_dirs = 0, at_write = 0 \<rparr>"

text \<open>
  The platform on which the transcoder fails and the unlink is refused as well; the
  sample request with letterboxing.
\<close>

definition unlink_refused_env :: environment where
  "unlink_refused_env =
     ffmpeg_failing_env \<lparr> fs_fault := (\<lambda>op. if op = Unlink
                                           then Some ''EBUSY: resource busy or locked''
                                           else None) \<rparr>"

definition letterbox_request :: save_request where
  "letterbox_request = sample_request \<lparr> preserveAspectRatio := True \<rparr>"

text \<open>The sample platform with a refused write, and with a refused stat.\<close>

definition write_refused_env :: environment where
  "write_refused_env =
     sample_env \<lparr> fs_fault := (\<lambda>op. if op = WriteFile
                                    then Some ''ENOSPC: no space left on device''
                                    else None) \<rparr>"

definition stat_refused_env :: environment where
  "stat_refused_env =
     sample_env \<lparr> fs_fault := (\<lambda>op. if op = Stat then Some ''EIO: i/o error'' else None) \<rparr>"

text \<open>The sample request with a resolution that lacks its height.\<close>

definition missing_height_request :: save_request where
  "missing_height_request = sample_request \<lparr> resolution := Some ''1920x'' \<rparr>"

section \<open>Properties of the resolution arithmetic\<close>

subsection \<open>Decimal strings\<close>

lemma below_ten:
  "d < 10 \<Longrightarrow> d = 0 \<or> d = 1 \<or> d = 2 \<or> d = 3 \<or> d = 4 \<or> d = 5 \<or> d = 6 \<or> d = 7 \<or> d = 8
     \<or> d = (9::nat)"
  by arith

lemma digit_val_digit_char: "d < 10 \<Longrightarrow> digit_val (digit_char d) = Some d"
  using below_ten [of d] by (auto simp: digit_val_def digit_char_def decimal_digits_def)

lemma is_digit_digit_char: "is_digit (digit_char d)"
proof -
  have "d mod 10 < 10" by simp
  from digit_val_digit_char [OF this] show ?thesis
    by (simp add: is_digit_def digit_char_def)
qed

lemma is_digit_plain:
  "is_digit c \<Longrightarrow> \<not> is_space c \<and> c \<noteq> CHR ''-'' \<and> c \<noteq> CHR ''+'' \<and> c \<noteq> CHR ''x''"
  by (auto simp: is_digit_def digit_val_def decimal_digits_def is_space_def split: if_splits)

lemma dec_nat_digits: "c \<in> set (dec_nat n) \<Longrightarrow> is_digit c"
proof (induction n arbitrary: c rule: dec_nat.induct)
  case (1 n)
  show ?case
  proof (cases "n < 10")
    case True
    with "1.prems" show ?thesis by (subst (asm) dec_nat.simps) (simp add: is_digit_digit_char)
  next
    case False
    with "1.prems" have "c \<in> set (dec_nat (n div 10)) \<or> c = digit_char (n mod 10)"
      by (subst (asm) dec_nat.simps) auto
    with 1 False show ?thesis by (auto simp: is_digit_digit_char)
  qed
qed

lemma dec_nat_not_empty: "dec_nat n \<noteq> []"
  by (subst dec_nat.simps) simp

lemma digits_value_append:
  "digits_value acc (xs @ ys) = digits_value (digits_value acc xs) ys"
  by (induction xs arbitrary: acc) auto

lemma digits_value_dec_nat: "digits_value 0 (dec_nat n) = n"
proof (induction n rule: dec_nat.induct)
  case (1 n)
  show ?case
  proof (cases "n < 10")
    case True
    then show ?thesis by (subst dec_nat.simps) (simp add: digit_val_digit_char)
  next
    case False
    with 1 show ?thesis
      by (subst dec_nat.simps) (simp add: digits_value_append digit_val_digit_char)
  qed
qed

lemma parseInt_digits:
  assumes "z \<noteq> []" and "\<forall>c \<in> set z. is_digit c"
  shows "parseInt z =
           (case round_double (digits_value 0 z) of
              None \<Rightarrow> PosInfinity
            | Some v \<Rightarrow> Num (int v))"
proof -
  from assms have c: "is_digit (hd z)" by (cases z) auto
  note plain = is_digit_plain [OF c]
  have drop: "dropWhile is_space z = z"
    using assms(1) plain by (cases z) auto
  have take: "takeWhile is_digit z = z"
    using assms(2) by (simp add: takeWhile_eq_all_conv)
  show ?thesis
    unfolding parseInt_def Let_def drop
    by (simp add: take plain assms(1) split: option.splits)
qed

text \<open>Below \<open>2 ^ 53\<close> nothing is rounded: the digits of a number parse to that number.\<close>

lemma parseInt_dec_nat: "n < 2 ^ 53 \<Longrightarrow> parseInt (dec_nat n) = Num (int n)"
  using parseInt_digits [of "dec_nat n"] dec_nat_not_empty [of n] dec_nat_digits [of _ n]
  by (simp add: digits_value_dec_nat round_double_def)

lemma number_string_small: "n < 2 ^ 53 \<Longrightarrow> number_string n = dec_nat n"
  by (simp add: number_string_def)

lemma num_str_nat: "n < 2 ^ 53 \<Longrightarrow> num_str (Num (int n)) = dec_nat n"
  by (simp add: num_str_def int_string_def number_string_def)

text \<open>
  From \<open>2 ^ 53\<close> on \<open>parseInt\<close> rounds, and the string of a number need not show all
  its digits.
\<close>

lemmas number_simps = parseInt_def is_space_def is_digit_def digit_val_def decimal_digits_def
  Let_def round_double_def bit_length.simps num_str_def int_string_def number_string_def
  shortest_value_def shortest_at.simps candidate_def rounds_to_def render_number_def
  dec_nat.simps digit_char_def

lemma parseInt_rounds: "parseInt ''9007199254740993'' = Num 9007199254740992"
  by (simp add: number_simps)

lemma num_str_exponent:
  "parseInt ''100000000000000000000000'' = Num 99999999999999991611392"
  "num_str (Num 99999999999999991611392) = ''1e+23''"
  "num_str (Num 1152921504606846976) = ''1152921504606847000''"
  by (simp_all add: number_simps)

subsection \<open>Splitting\<close>

lemma split_on_not_empty: "split_on c s \<noteq> []"
  by (induction s) (auto split: list.splits)

lemma split_on_length: "length (split_on c s) = Suc (length (filter (\<lambda>d. d = c) s))"
  by (induction s) (auto split: list.splits simp: split_on_not_empty)

lemma split_on_absent: "c \<notin> set s \<Longrightarrow> split_on c s = [s]"
  by (induction s) auto

lemma split_on_first: "c \<notin> set a \<Longrightarrow> split_on c (a @ c # b) = a # split_on c b"
  by (induction a) auto

lemma split_dec_nat:
  "split_on (CHR ''x'') (dec_nat w @ ''x'' @ dec_nat h) = [dec_nat w, dec_nat h]"
proof -
  have "CHR ''x'' \<notin> set (dec_nat w)" "CHR ''x'' \<notin> set (dec_nat h)"
    using dec_nat_digits is_digit_plain by blast+
  then show ?thesis by (simp add: split_on_first split_on_absent)
qed

subsection \<open>Normalising the target resolution\<close>

lemma evenHeight_even: "even (evenHeight height) \<and> evenHeight height \<le> height
    \<and> height - 1 \<le> evenHeight height"
  by (auto simp: evenHeight_def)

text \<open>
  The strings of two natural numbers below \<open>2 ^ 53\<close> joined by \<open>x\<close> give those
  numbers, the height made even.
\<close>

lemma resolution_well_formed:
  assumes "w < 2 ^ 53" and "h < 2 ^ 53"
  shows "parse_resolution (Some (dec_nat w @ ''x'' @ dec_nat h))
           = (Num (int w), Num (evenHeight (int h)))"
  using split_dec_nat [of w h] dec_nat_not_empty [of w] assms
  by (simp add: parse_resolution_def Let_def parseInt_dec_nat even_height_def)

text \<open>An absent string, and a string that does not contain exactly one \<open>x\<close>, give the
  default.\<close>

lemma resolution_default:
  "parse_resolution None = (Num 1920, Num 1080)"
  "length (filter (\<lambda>c. c = CHR ''x'') r) \<noteq> 1 \<Longrightarrow>
     parse_resolution (Some r) = (Num 1920, Num 1080)"
  by (simp_all add: parse_resolution_def Let_def split_on_length)

lemma resolution_odd_height: "parse_resolution (Some ''1920x1081'') = (Num 1920, Num 1080)"
  by (simp add: parse_resolution_def parseInt_def is_space_def is_digit_def digit_val_def
      decimal_digits_def Let_def evenHeight_def even_height_def round_double_def)

subsection \<open>Aspect-ratio labels\<close>








text \<open>
  The lower bound of the third band is the ratio 3:2 itself: a display of exactly that
  shape is outside the band and gets its label from the reduced fraction.
\<close>

lemma exact_three_by_two: "aspect_label 2160 1440 = ''3:2''"
  by (simp add: aspect_label_def calculateAspectRatio_def gcd_js_def gcd_loop.simps
      dec_int_def dec_nat.simps digit_char_def decimal_digits_def)


subsection \<open>The reported size of a display\<close>

lemma math_round_of_int: "math_round (of_int n) = n"
  unfolding math_round_def by (rule floor_unique) simp_all

lemma math_round_numeral: "math_round (numeral k) = numeral k"
  using math_round_of_int [of "numeral k"] by simp

text \<open>
  Claim C8 does not hold of the handler: the width and height it returns are the bounds
  of the display (the height made even), whatever the scale factor. For a display of
  1440 by 900 with scale factor 2 it returns 1440 by 900, while the scaled size, 2880 by
  1800, is computed and printed only.
\<close>

theorem native_resolution_unscaled:
  "res_width (resolution_of_display d) = bounds_width d
   \<and> res_height (resolution_of_display d) = evenHeight (bounds_height d)
   \<and> map res_width (fst (get_screen_resolutions (Inr [retina_display]))) = [1440]
   \<and> map res_height (fst (get_screen_resolutions (Inr [retina_display]))) = [900]
   \<and> scaledWidth retina_display = 2880
   \<and> evenHeight (scaledHeight retina_display) = 1800
   \<and> snd (get_screen_resolutions (Inr [retina_display])) = [DisplayLine 1440 900 2 2880 1800]"
  by (simp add: resolution_of_display_def get_screen_resolutions_def retina_display_def Let_def
      evenHeight_def scaledWidth_def scaledHeight_def math_round_numeral effective_scale_def
      display_line_def)


section \<open>Properties of the \<open>save-file\<close> handler\<close>

subsection \<open>What the transcoding branch does\<close>

lemma ffmpeg_calls_append: "ffmpeg_calls (xs @ ys) = ffmpeg_calls xs @ ffmpeg_calls ys"
  by (induction xs rule: ffmpeg_calls.induct) auto

lemma getVideoInfo_no_calls: "ffmpeg_calls (snd (getVideoInfo num outcome)) = []"
  by (auto simp: getVideoInfo_def split: probe_outcome.splits option.splits)

lemma transcode_calls:
  "ffmpeg_calls (snd (snd (transcode env req tp files))) = [command_of req tp]"
  by (simp add: transcode_def command_of_def Let_def case_prod_beta ffmpeg_calls_append
      getVideoInfo_no_calls split: ffmpeg_outcome.splits)

lemma transcode_result:
  "fst (transcode env req tp files) =
     (case ffmpeg_run env (command_of req tp) (files (locate env tp)) of
        FfmpegEnd out \<Rightarrow> Inr \<lparr> success = True, error = None \<rparr>
      | FfmpegError msg part \<Rightarrow> Inl msg)"
  by (simp add: transcode_def command_of_def Let_def case_prod_beta split: ffmpeg_outcome.splits)

lemma transcode_files:
  "fst (snd (transcode env req tp files)) =
     (case ffmpeg_run env (command_of req tp) (files (locate env tp)) of
        FfmpegEnd out \<Rightarrow> files(locate env (filePath req) \<mapsto> out)
      | FfmpegError msg None \<Rightarrow> files
      | FfmpegError msg (Some part) \<Rightarrow> files(locate env (filePath req) \<mapsto> part))"
  by (simp add: transcode_def command_of_def Let_def case_prod_beta
      split: ffmpeg_outcome.splits option.splits)

text \<open>The probed values do reach the console: the model does not drop them.\<close>

lemma transcode_logs_probe:
  "getVideoInfo (toNumber env) (ffprobe env tp (files (locate env tp))) = (info, plog) \<Longrightarrow>
   info_width info \<noteq> 0 \<Longrightarrow> info_height info \<noteq> 0 \<Longrightarrow>
   info_displayAspectRatio info = Some r \<Longrightarrow> r \<noteq> 0 \<Longrightarrow>
   LogInputDimensions (info_width info) (info_height info) r
     \<in> set (snd (snd (transcode env req tp files)))"
  by (simp add: transcode_def Let_def case_prod_beta split: ffmpeg_outcome.splits)

subsection \<open>The \<open>try\<close> block\<close>

lemma save_try_calls:
  "ffmpeg_calls (snd (snd (save_try env req content tp files))) =
     (if fs_fault env WriteFile = None \<and> fs_fault env Stat = None \<and> content \<noteq> []
         \<and> format req \<noteq> ''webm''
      then [command_of req tp] else [])"
  by (auto simp: save_try_def Let_def fs_writeFile_def fs_stat_def fs_copyFile_def
      ffmpeg_calls_append transcode_calls case_prod_beta
      split: option.splits sum.splits prod.splits)

lemma save_try_probe:
  "Ffprobe p \<in> set (snd (snd (save_try env req content tp files))) \<Longrightarrow>
   fs_fault env WriteFile = None \<and> fs_fault env Stat = None \<and> content \<noteq> []
     \<and> format req \<noteq> ''webm''"
  by (auto simp: save_try_def Let_def fs_writeFile_def fs_stat_def fs_copyFile_def
      case_prod_beta split: option.splits sum.splits prod.splits if_splits)

lemma save_try_transcoding:
  "fs_fault env WriteFile = None \<Longrightarrow> fs_fault env Stat = None \<Longrightarrow> content \<noteq> [] \<Longrightarrow>
   format req \<noteq> ''webm'' \<Longrightarrow>
   fst (save_try env req content tp files) = fst (transcode env req tp (files(locate env tp \<mapsto> content)))
   \<and> fst (snd (save_try env req content tp files))
       = fst (snd (transcode env req tp (files(locate env tp \<mapsto> content))))"
  by (simp add: save_try_def Let_def fs_writeFile_def fs_stat_def case_prod_beta)



lemma transcode_fault_change:
  "transcode (env\<lparr>fs_fault := faults\<rparr>) req tp files = transcode env req tp files"
  by (simp add: transcode_def Let_def case_prod_beta
      cong: ffmpeg_outcome.case_cong option.case_cong if_cong)

lemma fs_calls_unlink_fault:
  "fs_writeFile (env\<lparr>fs_fault := (fs_fault env)(Unlink := fault)\<rparr>) p content files
     = fs_writeFile env p content files"
  "fs_stat (env\<lparr>fs_fault := (fs_fault env)(Unlink := fault)\<rparr>) p files = fs_stat env p files"
  "fs_copyFile (env\<lparr>fs_fault := (fs_fault env)(Unlink := fault)\<rparr>) p q files
     = fs_copyFile env p q files"
  by (simp_all add: fs_writeFile_def fs_stat_def fs_copyFile_def cong: option.case_cong)

lemma save_try_unlink_fault:
  "save_try (env\<lparr>fs_fault := (fs_fault env)(Unlink := fault)\<rparr>) req content tp files
     = save_try env req content tp files"
  by (simp add: save_try_def Let_def transcode_fault_change fs_calls_unlink_fault
      split: prod.splits sum.splits)

lemma save_try_probe_change:
  "fst (save_try (env\<lparr>ffprobe := probe, toNumber := num\<rparr>) req content tp files)
     = fst (save_try env req content tp files)
   \<and> fst (snd (save_try (env\<lparr>ffprobe := probe, toNumber := num\<rparr>) req content tp files))
     = fst (snd (save_try env req content tp files))"
  by (auto simp: save_try_def Let_def fs_writeFile_def fs_stat_def fs_copyFile_def
      transcode_result transcode_files case_prod_beta
      split: option.splits sum.splits ffmpeg_outcome.splits)

subsection \<open>The handler as a whole\<close>

lemma save_file_events:
  "buffer req = Some content \<Longrightarrow> content \<noteq> [] \<Longrightarrow>
   \<exists>caught outcome.
     snd (snd (save_file env req files))
       = snd (snd (save_try env req content (tempPath_of env) files))
         @ caught @ [FsUnlink (tempPath_of env), outcome]
     \<and> ffmpeg_calls caught = [] \<and> ffmpeg_calls [outcome] = []
     \<and> (\<forall>p. Ffprobe p \<notin> set caught \<and> outcome \<noteq> Ffprobe p)"
  by (auto simp: save_file_def Let_def case_prod_beta fs_unlink_def
      split: sum.splits option.splits)

lemma save_file_result:
  "buffer req = Some content \<Longrightarrow> content \<noteq> [] \<Longrightarrow>
   fst (save_file env req files)
     = (case fst (save_try env req content (tempPath_of env) files) of
          Inr answer \<Rightarrow> answer
        | Inl msg \<Rightarrow> \<lparr> success = False, error = Some msg \<rparr>)"
  by (auto simp: save_file_def Let_def case_prod_beta fs_unlink_def
      split: sum.splits option.splits)

lemma save_file_files:
  "buffer req = Some content \<Longrightarrow> content \<noteq> [] \<Longrightarrow>
   fst (snd (save_file env req files))
     = snd (fs_unlink env (tempPath_of env)
         (fst (snd (save_try env req content (tempPath_of env) files))))"
  by (auto simp: save_file_def Let_def case_prod_beta
      split: sum.splits option.splits prod.splits)

lemma save_file_calls:
  "ffmpeg_calls (snd (snd (save_file env req files))) =
     (if (\<exists>content. buffer req = Some content \<and> content \<noteq> []) \<and>
         fs_fault env WriteFile = None \<and> fs_fault env Stat = None \<and> format req \<noteq> ''webm''
      then [command_of req (tempPath_of env)] else [])"
proof (cases "\<exists>content. buffer req = Some content \<and> content \<noteq> []")
  case True
  then obtain content where c: "buffer req = Some content" "content \<noteq> []" by blast
  from save_file_events [OF c, of env files]
  obtain caught outcome where
    "snd (snd (save_file env req files))
       = snd (snd (save_try env req content (tempPath_of env) files))
         @ caught @ [FsUnlink (tempPath_of env), outcome]"
    "ffmpeg_calls caught = []" "ffmpeg_calls [outcome] = []"
    by blast
  then show ?thesis using c by (simp add: ffmpeg_calls_append save_try_calls)
next
  case False
  then have "buffer req = None \<or> buffer req = Some []" by (cases "buffer req") auto
  then show ?thesis using False by (auto simp: save_file_def)
qed

subsection \<open>Evaluating the handler on the samples\<close>

lemmas run_simps = save_file_def save_try_def transcode_def tempPath_of_def
  path_join_def normalize_def number_string_def int_string_def dec_nat.simps digit_char_def
  decimal_digits_def fs_writeFile_def fs_stat_def fs_copyFile_def fs_unlink_def
  getVideoInfo_def parse_resolution_def parseInt_def round_double_def is_space_def
  is_digit_def digit_val_def evenHeight_def even_height_def videoBitrate_def scaleFilter_def
  make_command_def num_str_def bool_str_def fallback_info_def Let_def command_of_def
  probe_failure_def sample_env_def sample_request_def webm_request_def copy_refused_env_def
  write_refused_env_def stat_refused_env_def aliased_request_def missing_height_request_def
  ffmpeg_failing_env_def unlink_refused_env_def letterbox_request_def empty_buffer_result_def

subsection \<open>Malformed resolutions\<close>

text \<open>
  Claim C5 does not hold of the handler: the only test of the resolution string is that
  splitting it at \<open>x\<close> gives two parts, so a malformed string with exactly one \<open>x\<close> is
  not replaced by 1920 by 1080. For \<open>1920x\<close> the width is 1920 and the height is
  \<open>NaN\<close>, for \<open>widexhigh\<close> both are \<open>NaN\<close>, and the request for \<open>1920x\<close> reaches
  the transcoder with the filter \<open>scale=1920:NaN\<close>.
\<close>

theorem malformed_resolution_not_defaulted:
  "parse_resolution (Some ''1920x'') = (Num 1920, NaN)
   \<and> parse_resolution (Some ''widexhigh'') = (NaN, NaN)
   \<and> resolution missing_height_request = Some ''1920x''
   \<and> map cmd_videoFilters
        (ffmpeg_calls (snd (snd (save_file sample_env missing_height_request Map.empty))))
       = [''scale=1920:NaN'']"
  by (simp add: run_simps)

subsection \<open>Empty recordings\<close>

text \<open>
  Claim C3: a request whose buffer is absent or has length zero is answered with
  \<open>success = False\<close> and the message about missing recording data; the files are
  exactly what they were (no destination file, no temporary file), and the only thing
  that happens is one line on the console.
\<close>

theorem save_empty_buffer_rejected:
  assumes "buffer req = None \<or> buffer req = Some []"
  shows "save_file env req files
           = (\<lparr> success = False,
                 error = Some ''No recording data received. The recording may be empty.'' \<rparr>,
              files, [LogError ''Error: Empty buffer received'' None])"
  using assms by (auto simp: save_file_def empty_buffer_result_def)

text \<open>The rejection at a request with an empty buffer, and at one without a buffer.\<close>

theorem save_empty_buffer_rejected_witness:
  "buffer (sample_request \<lparr> buffer := Some [] \<rparr>) = Some [] \<and>
   success (fst (save_file sample_env (sample_request \<lparr> buffer := Some [] \<rparr>) Map.empty)) = False \<and>
   fst (snd (save_file sample_env (sample_request \<lparr> buffer := Some [] \<rparr>) Map.empty))
     ''/home/user/out.mp4'' = None \<and>
   buffer (sample_request \<lparr> buffer := None \<rparr>) = None \<and>
   success (fst (save_file sample_env (sample_request \<lparr> buffer := None \<rparr>) Map.empty)) = False"
  using save_empty_buffer_rejected [of "sample_request \<lparr> buffer := Some [] \<rparr>" sample_env Map.empty]
    save_empty_buffer_rejected [of "sample_request \<lparr> buffer := None \<rparr>" sample_env Map.empty]
  by (simp add: sample_request_def)

subsection \<open>The WebM fast path\<close>





subsection \<open>Cleanup of the temporary file\<close>

lemma tempPath_of_fault_change: "tempPath_of (env\<lparr>fs_fault := faults\<rparr>) = tempPath_of env"
  by (simp add: tempPath_of_def)

lemma save_file_unlink_fault:
  "fst (save_file (env\<lparr>fs_fault := (fs_fault env)(Unlink := fault)\<rparr>) req files)
     = fst (save_file env req files)"
proof (cases "\<exists>content. buffer req = Some content \<and> content \<noteq> []")
  case True
  then obtain content where c: "buffer req = Some content" "content \<noteq> []" by blast
  show ?thesis
    by (simp add: save_file_result [OF c] tempPath_of_fault_change save_try_unlink_fault)
next
  case False
  then have "buffer req = None \<or> buffer req = Some []" by (cases "buffer req") auto
  then show ?thesis by (auto simp: save_file_def)
qed

lemma save_file_unlinks:
  assumes "buffer req = Some content" and "content \<noteq> []"
  shows "\<exists>before outcome.
           snd (snd (save_file env req files)) = before @ [FsUnlink (tempPath_of env), outcome]"
proof -
  from save_file_events [OF assms, of env files]
  obtain caught outcome where
    "snd (snd (save_file env req files))
       = snd (snd (save_try env req content (tempPath_of env) files))
         @ caught @ [FsUnlink (tempPath_of env), outcome]"
    by blast
  then have "snd (snd (save_file env req files))
       = (snd (snd (save_try env req content (tempPath_of env) files)) @ caught)
         @ [FsUnlink (tempPath_of env), outcome]"
    by simp
  then show ?thesis by blast
qed

lemma save_file_temp_gone:
  assumes "buffer req = Some content" and "content \<noteq> []" and "fs_fault env Unlink = None"
  shows "fst (snd (save_file env req files)) (locate env (tempPath_of env)) = None"
  using assms(3)
  by (auto simp: save_file_files [OF assms(1) assms(2)] fs_unlink_def split: option.splits)

lemma save_file_unlink_logged:
  assumes "buffer req = Some content" and "content \<noteq> []" and "fs_fault env Unlink = Some msg"
  shows "last (snd (snd (save_file env req files)))
           = LogError ''Error deleting temp file:'' (Some msg)
         \<and> fst (snd (save_file env req files))
           = fst (snd (save_try env req content (tempPath_of env) files))"
  using assms
  by (auto simp: save_file_def Let_def case_prod_beta fs_unlink_def split: sum.splits)

text \<open>
  Claim C2: a request that is rejected for its empty buffer creates no temporary file.
  Every other request, whatever happens in the \<open>try\<close> block, ends with the unlink of
  the temporary path followed by one console line about it; unless the platform
  refuses the unlink, no file is left at the temporary path; a refused unlink is
  printed as an error. The answer is the same whether or not the unlink is refused.
\<close>

theorem save_always_cleans_up:
  "(buffer req = None \<or> buffer req = Some [] \<longrightarrow> fst (snd (save_file env req files)) = files)
   \<and> (buffer req \<noteq> None \<and> buffer req \<noteq> Some [] \<longrightarrow>
        (\<exists>before outcome.
           snd (snd (save_file env req files)) = before @ [FsUnlink (tempPath_of env), outcome])
        \<and> (fs_fault env Unlink = None \<longrightarrow>
             fst (snd (save_file env req files)) (locate env (tempPath_of env)) = None)
        \<and> (\<forall>msg. fs_fault env Unlink = Some msg \<longrightarrow>
             last (snd (snd (save_file env req files)))
               = LogError ''Error deleting temp file:'' (Some msg)))
   \<and> fst (save_file (env\<lparr>fs_fault := (fs_fault env)(Unlink := fault)\<rparr>) req files)
       = fst (save_file env req files)"
proof (cases "\<exists>content. buffer req = Some content \<and> content \<noteq> []")
  case True
  then obtain content where c: "buffer req = Some content" "content \<noteq> []" by blast
  from c save_file_unlinks [OF c, of env files] save_file_temp_gone [OF c, of env files]
    save_file_unlink_logged [OF c, of env _ files] save_file_unlink_fault [of env fault req files]
  show ?thesis by auto
next
  case False
  then have e: "buffer req = None \<or> buffer req = Some []" by (cases "buffer req") auto
  then have "fst (snd (save_file env req files)) = files" by (auto simp: save_file_def)
  with e save_file_unlink_fault [of env fault req files] show ?thesis by auto
qed

text \<open>
  Cleanup after a failed transcoder run, with and without a refused unlink, and a
  request without a buffer.
\<close>

theorem save_always_cleans_up_witness:
  "buffer sample_request \<noteq> None \<and> buffer sample_request \<noteq> Some [] \<and>
   fs_fault ffmpeg_failing_env Unlink = None \<and>
   fst (save_file ffmpeg_failing_env sample_request Map.empty)
     = \<lparr> success = False, error = Some ''ffmpeg exited with code 1'' \<rparr> \<and>
   fst (snd (save_file ffmpeg_failing_env sample_request Map.empty))
     (locate ffmpeg_failing_env (tempPath_of ffmpeg_failing_env)) = None \<and>
   fst (save_file (ffmpeg_failing_env\<lparr>fs_fault :=
          (fs_fault ffmpeg_failing_env)(Unlink := Some ''EBUSY'')\<rparr>) sample_request Map.empty)
     = \<lparr> success = False, error = Some ''ffmpeg exited with code 1'' \<rparr> \<and>
   fs_fault unlink_refused_env Unlink = Some ''EBUSY: resource busy or locked'' \<and>
   last (snd (snd (save_file unlink_refused_env sample_request Map.empty)))
     = LogError ''Error deleting temp file:'' (Some ''EBUSY: resource busy or locked'') \<and>
   buffer (sample_request \<lparr> buffer := None \<rparr>) = None \<and>
   fst (snd (save_file sample_env (sample_request \<lparr> buffer := None \<rparr>) Map.empty)) = Map.empty"
proof -
  have r: "fst (save_file ffmpeg_failing_env sample_request Map.empty)
     = \<lparr> success = False, error = Some ''ffmpeg exited with code 1'' \<rparr>"
    by (simp add: run_simps ffmpeg_failing_env_def)
  have b: "buffer sample_request \<noteq> None \<and> buffer sample_request \<noteq> Some []"
    and u: "fs_fault ffmpeg_failing_env Unlink = None"
    and v: "fs_fault unlink_refused_env Unlink = Some ''EBUSY: resource busy or locked''"
    and n: "buffer (sample_request \<lparr> buffer := None \<rparr>) = None"
    by (simp_all add: sample_request_def ffmpeg_failing_env_def sample_env_def
        unlink_refused_env_def)
  from save_always_cleans_up [of sample_request ffmpeg_failing_env Map.empty "Some ''EBUSY''"]
    r b u
  have first: "fst (snd (save_file ffmpeg_failing_env sample_request Map.empty))
       (locate ffmpeg_failing_env (tempPath_of ffmpeg_failing_env)) = None \<and>
     fst (save_file (ffmpeg_failing_env\<lparr>fs_fault :=
          (fs_fault ffmpeg_failing_env)(Unlink := Some ''EBUSY'')\<rparr>) sample_request Map.empty)
       = \<lparr> success = False, error = Some ''ffmpeg exited with code 1'' \<rparr>"
    by simp
  from save_always_cleans_up [of sample_request unlink_refused_env Map.empty None] b v
  have second: "last (snd (snd (save_file unlink_refused_env sample_request Map.empty)))
     = LogError ''Error deleting temp file:'' (Some ''EBUSY: resource busy or locked'')"
    by simp
  from save_always_cleans_up [of "sample_request \<lparr> buffer := None \<rparr>" sample_env Map.empty None] n
  have third: "fst (snd (save_file sample_env (sample_request \<lparr> buffer := None \<rparr>) Map.empty))
      = Map.empty"
    by simp
  from r b u v n first second third show ?thesis by simp
qed

subsection \<open>The scaling filter\<close>

text \<open>
  Claim C4: every transcoder command of a request whose resolution normalises to
  \<open>W\<close> and \<open>H\<close> carries the filter
  \<open>scale=W:H:force_original_aspect_ratio=decrease,pad=W:H:(ow-iw)/2:(oh-ih)/2\<close> when the
  aspect ratio is to be preserved and \<open>scale=W:H\<close> otherwise; for 1920 by 1080
  without preservation that is \<open>scale=1920:1080\<close>.
\<close>

theorem transcode_scale_filter:
  "\<forall>command \<in> set (ffmpeg_calls (snd (snd (save_file env req files)))).
     parse_resolution (resolution req) = (W, H) \<longrightarrow>
       (preserveAspectRatio req \<longrightarrow>
          cmd_videoFilters command
            = ''scale='' @ num_str W @ '':'' @ num_str H
              @ '':force_original_aspect_ratio=decrease,pad='' @ num_str W @ '':'' @ num_str H
              @ '':(ow-iw)/2:(oh-ih)/2'')
       \<and> (\<not> preserveAspectRatio req \<longrightarrow>
          cmd_videoFilters command = ''scale='' @ num_str W @ '':'' @ num_str H)
       \<and> (\<not> preserveAspectRatio req \<and> W = Num 1920 \<and> H = Num 1080 \<longrightarrow>
          cmd_videoFilters command = ''scale=1920:1080'')"
proof -
  have "num_str (Num 1920) = ''1920''" "num_str (Num 1080) = ''1080''"
    by (simp_all add: num_str_def int_string_def number_string_def dec_nat.simps digit_char_def
        decimal_digits_def)
  then show ?thesis
    by (auto simp: save_file_calls command_of_def make_command_def scaleFilter_def
        split: if_splits)
qed

text \<open>The filters of the sample request, which asks for 1920 by 1081, without and with
  letterboxing.\<close>

theorem transcode_scale_filter_witness:
  "ffmpeg_calls (snd (snd (save_file sample_env sample_request Map.empty)))
     = [command_of sample_request (tempPath_of sample_env)] \<and>
   parse_resolution (resolution sample_request) = (Num 1920, Num 1080) \<and>
   \<not> preserveAspectRatio sample_request \<and>
   cmd_videoFilters (command_of sample_request (tempPath_of sample_env)) = ''scale=1920:1080'' \<and>
   ffmpeg_calls (snd (snd (save_file sample_env letterbox_request Map.empty)))
     = [command_of letterbox_request (tempPath_of sample_env)] \<and>
   parse_resolution (resolution letterbox_request) = (Num 1920, Num 1080) \<and>
   preserveAspectRatio letterbox_request \<and>
   cmd_videoFilters (command_of letterbox_request (tempPath_of sample_env))
     = ''scale=1920:1080:force_original_aspect_ratio=decrease,pad=1920:1080:(ow-iw)/2:(oh-ih)/2''"
proof -
  have calls: "ffmpeg_calls (snd (snd (save_file sample_env sample_request Map.empty)))
     = [command_of sample_request (tempPath_of sample_env)]"
    "ffmpeg_calls (snd (snd (save_file sample_env letterbox_request Map.empty)))
     = [command_of letterbox_request (tempPath_of sample_env)]"
    by (simp_all add: save_file_calls sample_env_def sample_request_def letterbox_request_def)
  have res: "parse_resolution (resolution sample_request) = (Num 1920, Num 1080)"
    "parse_resolution (resolution letterbox_request) = (Num 1920, Num 1080)"
    by (simp_all add: sample_request_def letterbox_request_def parse_resolution_def
        parseInt_def is_space_def is_digit_def digit_val_def decimal_digits_def evenHeight_def
        even_height_def round_double_def)
  have np: "\<not> preserveAspectRatio sample_request" "preserveAspectRatio letterbox_request"
    by (simp_all add: sample_request_def letterbox_request_def)
  have digits: "num_str (Num 1920) = ''1920''" "num_str (Num 1080) = ''1080''"
    by (simp_all add: num_str_def int_string_def number_string_def dec_nat.simps digit_char_def
        decimal_digits_def)
  from transcode_scale_filter [of sample_env sample_request Map.empty "Num 1920" "Num 1080"]
    calls(1) res(1) np(1)
  have first: "cmd_videoFilters (command_of sample_request (tempPath_of sample_env))
      = ''scale=1920:1080''"
    by (simp add: digits)
  from transcode_scale_filter [of sample_env letterbox_request Map.empty "Num 1920" "Num 1080"]
    calls(2) res(2) np(2)
  have second: "cmd_videoFilters (command_of letterbox_request (tempPath_of sample_env))
     = ''scale=1920:1080:force_original_aspect_ratio=decrease,pad=1920:1080:(ow-iw)/2:(oh-ih)/2''"
    by (simp add: digits)
  from calls res np first second show ?thesis by simp
qed

subsection \<open>A failing probe\<close>

lemma getVideoInfo_fallback:
  "probe_failure outcome \<Longrightarrow> fst (getVideoInfo num outcome) = fallback_info"
  by (auto simp: probe_failure_def getVideoInfo_def split: probe_outcome.splits option.splits)

lemma save_file_probe_reached:
  assumes "Ffprobe p \<in> set (snd (snd (save_file env req files)))"
  shows "\<exists>content. buffer req = Some content \<and> content \<noteq> [] \<and> fs_fault env WriteFile = None
           \<and> fs_fault env Stat = None \<and> format req \<noteq> ''webm''"
proof (cases "\<exists>content. buffer req = Some content \<and> content \<noteq> []")
  case True
  then obtain content where c: "buffer req = Some content" "content \<noteq> []" by blast
  from save_file_events [OF c, of env files] assms
  have "Ffprobe p \<in> set (snd (snd (save_try env req content (tempPath_of env) files)))"
    by auto
  from save_try_probe [OF this] c show ?thesis by simp
next
  case False
  then have "buffer req = None \<or> buffer req = Some []" by (cases "buffer req") auto
  with assms show ?thesis by (auto simp: save_file_def)
qed

text \<open>
  Claim C9: when the handler probes the temporary file and the probe fails,
  \<open>getVideoInfo\<close> still resolves, with 1920 by 1080; the transcoder is invoked once
  with the command of the request, and the answer is decided by the transcoder alone.
\<close>

theorem probe_failure_not_fatal:
  assumes "Ffprobe (tempPath_of env) \<in> set (snd (snd (save_file env req files)))"
    and "probe_failure (ffprobe env (tempPath_of env) (buffer req))"
  shows "fst (getVideoInfo (toNumber env) (ffprobe env (tempPath_of env) (buffer req)))
           = fallback_info
         \<and> info_width fallback_info = 1920 \<and> info_height fallback_info = 1080
         \<and> ffmpeg_calls (snd (snd (save_file env req files)))
             = [command_of req (tempPath_of env)]
         \<and> fst (save_file env req files)
             = (case ffmpeg_run env (command_of req (tempPath_of env)) (buffer req) of
                  FfmpegEnd out \<Rightarrow> \<lparr> success = True, error = None \<rparr>
                | FfmpegError msg part \<Rightarrow> \<lparr> success = False, error = Some msg \<rparr>)"
proof -
  from save_file_probe_reached [OF assms(1)]
  obtain content where c: "buffer req = Some content" "content \<noteq> []"
    and ok: "fs_fault env WriteFile = None" "fs_fault env Stat = None"
    and f: "format req \<noteq> ''webm''"
    by blast
  have calls: "ffmpeg_calls (snd (snd (save_file env req files)))
      = [command_of req (tempPath_of env)]"
    using c ok f by (simp add: save_file_calls)
  have "fst (save_try env req content (tempPath_of env) files)
      = fst (transcode env req (tempPath_of env)
          (files(locate env (tempPath_of env) \<mapsto> content)))"
    using save_try_transcoding [OF ok c(2) f] by simp
  then have res: "fst (save_file env req files)
      = (case ffmpeg_run env (command_of req (tempPath_of env)) (buffer req) of
           FfmpegEnd out \<Rightarrow> \<lparr> success = True, error = None \<rparr>
         | FfmpegError msg part \<Rightarrow> \<lparr> success = False, error = Some msg \<rparr>)"
    using c by (simp add: save_file_result [OF c] transcode_result split: ffmpeg_outcome.splits)
  from getVideoInfo_fallback [OF assms(2)] calls res
  show ?thesis by (simp add: fallback_info_def)
qed

text \<open>The sample platform, whose probe always fails.\<close>

theorem probe_failure_not_fatal_witness:
  "Ffprobe (tempPath_of sample_env)
     \<in> set (snd (snd (save_file sample_env sample_request Map.empty))) \<and>
   probe_failure (ffprobe sample_env (tempPath_of sample_env) (buffer sample_request)) \<and>
   fst (save_file sample_env sample_request Map.empty) = \<lparr> success = True, error = None \<rparr>"
proof -
  have p: "Ffprobe (tempPath_of sample_env)
     \<in> set (snd (snd (save_file sample_env sample_request Map.empty)))"
    by (simp add: run_simps)
  have f: "probe_failure (ffprobe sample_env (tempPath_of sample_env) (buffer sample_request))"
    by (simp add: sample_env_def probe_failure_def)
  have r: "ffmpeg_run sample_env (command_of sample_request (tempPath_of sample_env))
        (buffer sample_request) = FfmpegEnd [0, 0, 0, 24]"
    by (simp add: sample_env_def)
  from probe_failure_not_fatal [OF p f] p f r show ?thesis by simp
qed

subsection \<open>The probe does not influence the transcoder\<close>

lemma tempPath_of_probe_change:
  "tempPath_of (env\<lparr>ffprobe := probe, toNumber := num\<rparr>) = tempPath_of env"
  by (simp add: tempPath_of_def)

text \<open>
  Claim C10: replacing the probe and the number conversion it relies on by any others
  changes neither the transcoder commands, nor the answer, nor the files afterwards;
  by \<open>transcode_logs_probe\<close> the probed values reach the console only.
\<close>

theorem ffmpeg_command_ignores_probe:
  "ffmpeg_calls (snd (snd (save_file (env\<lparr>ffprobe := probe, toNumber := num\<rparr>) req files)))
     = ffmpeg_calls (snd (snd (save_file env req files)))
   \<and> fst (save_file (env\<lparr>ffprobe := probe, toNumber := num\<rparr>) req files)
     = fst (save_file env req files)
   \<and> fst (snd (save_file (env\<lparr>ffprobe := probe, toNumber := num\<rparr>) req files))
     = fst (snd (save_file env req files))"
proof (cases "\<exists>content. buffer req = Some content \<and> content \<noteq> []")
  case True
  then obtain content where c: "buffer req = Some content" "content \<noteq> []" by blast
  have calls: "ffmpeg_calls (snd (snd (save_file (env\<lparr>ffprobe := probe, toNumber := num\<rparr>) req files)))
     = ffmpeg_calls (snd (snd (save_file env req files)))"
    by (simp add: save_file_calls tempPath_of_probe_change)
  note t = save_try_probe_change
    [where env = env and probe = probe and num = num and req = req and content = content
       and tp = "tempPath_of env" and files = files]
  have res: "fst (save_file (env\<lparr>ffprobe := probe, toNumber := num\<rparr>) req files)
     = fst (save_file env req files)"
    using t by (simp add: save_file_result [OF c] tempPath_of_probe_change)
  have fs: "fst (snd (save_file (env\<lparr>ffprobe := probe, toNumber := num\<rparr>) req files))
     = fst (snd (save_file env req files))"
    using t by (simp add: save_file_files [OF c] tempPath_of_probe_change fs_unlink_def
        cong: option.case_cong)
  from calls res fs show ?thesis by simp
next
  case False
  then have "buffer req = None \<or> buffer req = Some []" by (cases "buffer req") auto
  then show ?thesis by (auto simp: save_file_def)
qed


section \<open>Properties of the recording sessions\<close>

subsection \<open>Invocations that do not overlap\<close>

text \<open>An invocation that finds the flag set is rejected and assigns nothing.\<close>

lemma start_recording_rejected:
  "isRecording s \<Longrightarrow> start_recording env s = (s, already_recording)"
  "isRecording s \<Longrightarrow> main_step StartCall s = s"
  by (simp_all add: start_recording_def start_check_def)

lemma busy_main_rejects:
  "start_recording first_start busy_main
     = (busy_main, \<lparr> start_success = False, start_message = ''Already recording'' \<rparr>)"
  by (simp add: start_recording_rejected busy_main_def already_recording_def)

lemma start_recording_children:
  "children (fst (start_recording env s)) = children s
   \<or> (\<not> isRecording s \<and> isRecording (fst (start_recording env s))
       \<and> (\<exists>child. children (fst (start_recording env s)) = child # children s))"
  by (auto simp: start_recording_def start_check_def start_after_dirs_def start_after_write_def
      split: option.splits sum.splits)

lemma start_recording_idle:
  "\<not> isRecording (fst (start_recording env s)) \<Longrightarrow>
   children (fst (start_recording env s)) = children s"
  using start_recording_children [of env s] by auto

lemma serial_step_single: "single_session s \<Longrightarrow> single_session (serial_step e s)"
proof (cases e)
  case (SerialStart env)
  assume inv: "single_session s"
  show ?thesis
  proof (cases "isRecording s")
    case True
    then have "fst (start_recording env s) = s"
      by (simp add: start_recording_rejected)
    with inv SerialStart show ?thesis by simp
  next
    case False
    with inv have "children s = []" by (simp add: single_session_def)
    with start_recording_children [of env s] start_recording_idle [of env s] SerialStart
    show ?thesis by (auto simp: single_session_def)
  qed
next
  case (SerialClosed child)
  assume inv: "single_session s"
  show ?thesis
  proof (cases "child \<in> set (children s)")
    case True
    with inv have "children s = [child]"
      by (cases "children s") (auto simp: single_session_def)
    with SerialClosed True show ?thesis
      by (simp add: single_session_def child_closed_def)
  next
    case False
    with inv SerialClosed show ?thesis by simp
  qed
qed

lemma run_serial_single: "single_session s \<Longrightarrow> single_session (run_serial s es)"
  by (induction es arbitrary: s) (auto simp: serial_step_single)

lemma initial_single: "single_session initial_main"
  by (simp add: single_session_def initial_main_def)

subsection \<open>Invocations that overlap\<close>

text \<open>
  Claim C6 does not hold of the handler: the flag is tested in the first line and set
  in the last one, with two \<open>await\<close>s in between. Of two invocations that arrive one
  after the other, the second still finds the flag clear, so neither is rejected. Once
  the first has spawned its child and set the flag, the second assigns a new output
  path, spawns a second child and answers \<open>Recording started\<close>, in whatever state
  it resumes: two children are alive, and the output path of the session that was
  already active has changed.
\<close>

theorem overlapping_starts_not_rejected:
  "start_check initial_main = None
   \<and> start_check (main_step StartCall initial_main) = None
   \<and> at_dirs (run_main initial_main [StartCall, StartCall]) = 2
   \<and> isRecording (run_main initial_main
        [StartCall, StartCall, DirsSettled first_start, WriteSettled first_start])
   \<and> children (run_main initial_main
        [StartCall, StartCall, DirsSettled first_start, WriteSettled first_start]) = [101]
   \<and> recordingPath (run_main initial_main
        [StartCall, StartCall, DirsSettled first_start, WriteSettled first_start])
       = ''/data/recordings/recording-2024-01-01T10-00-00-000Z''
   \<and> overlapping_starts
       = [StartCall, StartCall, DirsSettled first_start, WriteSettled first_start,
          DirsSettled second_start, WriteSettled second_start]
   \<and> snd (start_after_write second_start s)
       = \<lparr> start_success = True, start_message = ''Recording started'' \<rparr>
   \<and> children (run_main initial_main overlapping_starts) = [102, 101]
   \<and> recordingPath (run_main initial_main overlapping_starts)
       = ''/data/recordings/recording-2024-01-01T10-00-00-004Z''"
  by (simp add: overlapping_starts_def initial_main_def first_start_def second_start_def
      start_check_def start_after_dirs_def start_after_write_def path_join_def normalize_def)

end
